theory Spec2Isabelle
  imports Main
begin

section \<open>Event registration and waitlist state machine\<close>

text \<open>
  A shallow embedding of the registration service, the waitlist service, the cron
  operations and the two database triggers of the OSA community platform (state machine
  specification, sections 2.3, 3.3 and 4; database triggers file; initial Prisma
  migration).

  Conventions of the embedding:
  \<^item> a table is the list of its rows in insertion order; a row is a record with the columns
    the services read or write (presentation columns such as title, slug, content and
    the denormalised e-mail address are left out);
  \<^item> identifiers are strings (TEXT columns); the uuid that Prisma generates for a new row
    is a parameter \<open>newId\<close> of the operation that creates the row;
  \<^item> a timestamp is an integer number of milliseconds since the epoch; every evaluation of
    \<open>new Date()\<close> is a parameter of its own of the operation that evaluates it, and so is
    the \<open>CURRENT_TIMESTAMP\<close> that the database gives to \<open>registeredAt\<close>; the time zone of
    the process, which \<open>getHours\<close> and \<open>setHours\<close> read, is a parameter \<open>zone\<close>;
  \<^item> a price (DECIMAL(10,2)) is an integer number of hundredths; an INTEGER column is an
    integer: the only arithmetic the model does on one is the renumbering of positions by
    \<open>reorderWaitlistPositions\<close>, bounded by the number of rows, since the statements of the
    seat trigger raise before they compute;
  \<^item> a thrown exception is the left injection of a sum, carrying the exception class and
    its message;
  \<^item> the body of a \<open>prisma.$transaction\<close> callback is a function from the store to a
    result and the store reached when the callback returned or threw; \<open>transaction\<close>
    keeps that store on return and restores the initial one on a throw;
  \<^item> e-mail sending only reads the store and is not part of the model; the user rows that
    it reads are supplied by the identity collaborator and assumed present;
  \<^item> the trigger functions are taken as they are written: their SQL statements name the
    columns \<open>current_seats\<close>, \<open>updated_at\<close> and \<open>event_id\<close>, while the migration creates
    the columns \<open>currentSeats\<close>, \<open>updatedAt\<close> and \<open>eventId\<close>, so a trigger raises whenever
    it reaches one of these statements.
\<close>

subsection \<open>Data model\<close>

type_synonym ident = string
type_synonym timestamp = int

datatype RegistrationStatus = PENDING | CONFIRMED | CANCELLED | COMPLETED

datatype WaitlistStatus = WAITING | OFFERED | ACCEPTED | EXPIRED | DECLINED

datatype PaymentStatus = PAY_PENDING | PAY_COMPLETED | PAY_FAILED | PAY_REFUNDED

record event =
  ev_id :: ident
  maxSeats :: int
  currentSeats :: int
  isFree :: bool
  price :: "int option"
  registrationDeadline :: "timestamp option"
  ev_status :: string

record eventRegistration =
  reg_id :: ident
  reg_eventId :: ident
  reg_userId :: ident
  reg_status :: RegistrationStatus
  paymentStatus :: "PaymentStatus option"
  stripeSessionId :: "string option"
  registeredAt :: timestamp
  confirmedAt :: "timestamp option"
  cancelledAt :: "timestamp option"
  cancelReason :: "string option"

record waitlistEntry =
  wl_id :: ident
  wl_eventId :: ident
  wl_userId :: ident
  position :: int
  wl_status :: WaitlistStatus
  offeredAt :: "timestamp option"
  expiresAt :: "timestamp option"
  respondedAt :: "timestamp option"

record db =
  events :: "event list"
  eventRegistrations :: "eventRegistration list"
  waitlist :: "waitlistEntry list"

text \<open>
  Exceptions: the NestJS exception classes and the plain \<open>Error\<close> with their messages;
  the Prisma error P2002 raised when an insert violates a primary key or a unique index,
  with the name of the constraint; and the database error raised by a statement that
  names a column its table does not have, with the name of the column.
\<close>

datatype exn =
    BadRequestException string
  | ConflictException string
  | Error string
  | UniqueConstraintViolation string
  | UndefinedColumn string

text \<open>
  The objects returned by \<open>register\<close> (\<open>RegistrationResult\<close>) and by \<open>acceptOffer\<close>
  (\<open>AcceptResult\<close>) are JavaScript object literals; a property that the literal does not
  set is \<open>None\<close>.
\<close>

record result =
  rtype :: string
  registration :: "eventRegistration option"
  checkoutUrl :: "string option"
  waitlistEntry :: "waitlistEntry option"

text \<open>
  The payment collaborator: \<open>stripeService.createEventCheckoutSession\<close> is a parameter of
  the operations that call it. It receives the arguments that come from the store and
  returns the checkout URL or throws.
\<close>

record checkoutParams =
  cp_userId :: ident
  cp_eventId :: ident
  cp_registrationId :: ident
  cp_price :: int

type_synonym stripeService = "checkoutParams \<Rightarrow> exn + string"

type_synonym 'a tx = "db \<Rightarrow> (exn + 'a) \<times> db"

subsection \<open>Local time\<close>

text \<open>
  The time zone of the process: \<open>utcOffset z t\<close> is the offset of local time from UTC at
  the instant \<open>t\<close>, and \<open>localOffset z l\<close> the offset that applies to the local time
  value \<open>l\<close> (ECMAScript's \<open>LocalTZA(t, true)\<close> and \<open>LocalTZA(l, false)\<close>), both in
  milliseconds.

  \<open>d.setHours(d.getHours() + h)\<close>: the hours are read and written in local time, so \<open>h\<close>
  hours are added to the local time value of \<open>d\<close> and the sum is converted back to UTC.
  (Times are taken within the range of \<open>Date\<close>, where no clipping occurs.)
\<close>

record zone =
  utcOffset :: "timestamp \<Rightarrow> int"
  localOffset :: "int \<Rightarrow> int"

definition msPerHour :: int where
  "msPerHour = 3600000"

definition setHours_plus :: "zone \<Rightarrow> int \<Rightarrow> timestamp \<Rightarrow> timestamp" where
  "setHours_plus z h t =
     (let local = t + utcOffset z t;
          local' = local + h * msPerHour
      in local' - localOffset z local')"

subsection \<open>Integrity constraints of the schema\<close>

text \<open>
  Primary keys of the three tables and the two unique indexes
  \<open>event_registrations_eventId_userId_key\<close> and \<open>waitlist_eventId_userId_key\<close>.
\<close>

definition registration_pair :: "eventRegistration \<Rightarrow> ident \<times> ident" where
  "registration_pair r = (reg_eventId r, reg_userId r)"

definition waitlist_pair :: "waitlistEntry \<Rightarrow> ident \<times> ident" where
  "waitlist_pair w = (wl_eventId w, wl_userId w)"

definition db_constraints :: "db \<Rightarrow> bool" where
  "db_constraints s \<longleftrightarrow>
     distinct (map ev_id (events s)) \<and>
     distinct (map reg_id (eventRegistrations s)) \<and>
     distinct (map registration_pair (eventRegistrations s)) \<and>
     distinct (map wl_id (waitlist s)) \<and>
     distinct (map waitlist_pair (waitlist s))"

subsection \<open>Database triggers\<close>

text \<open>
  The statement of the seat trigger,
  \<open>UPDATE events SET current_seats = ..., updated_at = NOW() WHERE id = NEW.event_id\<close>
  (and its variant with \<open>GREATEST(current_seats - 1, 0)\<close>): the table \<open>events\<close> has no column
  \<open>current_seats\<close>, so executing the statement raises and the table is not changed.
\<close>

definition UPDATE_events_SET_current_seats :: "ident \<Rightarrow> event list \<Rightarrow> exn + event list" where
  "UPDATE_events_SET_current_seats eid evs = Inl (UndefinedColumn ''current_seats'')"

text \<open>
  \<open>update_event_seat_count\<close>, one function for each \<open>TG_OP\<close>. A branch that does not
  reach its UPDATE statement returns without an error.
\<close>

definition update_event_seat_count_INSERT :: "eventRegistration \<Rightarrow> event list \<Rightarrow> exn + event list" where
  "update_event_seat_count_INSERT new evs =
     (if reg_status new = CONFIRMED then UPDATE_events_SET_current_seats (reg_eventId new) evs
      else Inr evs)"

definition update_event_seat_count_UPDATE ::
  "eventRegistration \<Rightarrow> eventRegistration \<Rightarrow> event list \<Rightarrow> exn + event list" where
  "update_event_seat_count_UPDATE old new evs =
     (if reg_status old \<noteq> CONFIRMED \<and> reg_status new = CONFIRMED
        then UPDATE_events_SET_current_seats (reg_eventId new) evs
      else if reg_status old = CONFIRMED \<and> (reg_status new = CANCELLED \<or> reg_status new = COMPLETED)
        then UPDATE_events_SET_current_seats (reg_eventId new) evs
      else Inr evs)"

definition update_event_seat_count_DELETE :: "eventRegistration \<Rightarrow> event list \<Rightarrow> exn + event list" where
  "update_event_seat_count_DELETE old evs =
     (if reg_status old = CONFIRMED then UPDATE_events_SET_current_seats (reg_eventId old) evs
      else Inr evs)"

text \<open>The AFTER UPDATE trigger runs for each updated row, given as the pair (OLD, NEW).\<close>

fun update_event_seat_count_rows ::
  "(eventRegistration \<times> eventRegistration) list \<Rightarrow> event list \<Rightarrow> exn + event list" where
  "update_event_seat_count_rows [] evs = Inr evs"
| "update_event_seat_count_rows ((old, new) # rows) evs =
     (case update_event_seat_count_UPDATE old new evs of
        Inl e \<Rightarrow> Inl e
      | Inr evs' \<Rightarrow> update_event_seat_count_rows rows evs')"

definition is_live :: "waitlistEntry \<Rightarrow> bool" where
  "is_live w \<longleftrightarrow> wl_status w = WAITING \<or> wl_status w = OFFERED"

text \<open>
  \<open>assign_waitlist_position\<close>: its only statement,
  \<open>SELECT COALESCE(MAX(position), 0) + 1 ... FROM waitlist WHERE event_id = NEW.event_id\<close>,
  names the column \<open>event_id\<close>, which \<open>waitlist\<close> does not have: the trigger raises on every
  insert.
\<close>

definition assign_waitlist_position :: "waitlistEntry \<Rightarrow> waitlistEntry list \<Rightarrow> exn + waitlistEntry" where
  "assign_waitlist_position new ws = Inl (UndefinedColumn ''event_id'')"

subsection \<open>Prisma operations on the tables\<close>

definition event_findUnique :: "ident \<Rightarrow> db \<Rightarrow> event option" where
  "event_findUnique eid s = find (\<lambda>e. ev_id e = eid) (events s)"

definition eventRegistration_findUnique_id :: "ident \<Rightarrow> db \<Rightarrow> eventRegistration option" where
  "eventRegistration_findUnique_id rid s = find (\<lambda>r. reg_id r = rid) (eventRegistrations s)"

definition eventRegistration_findUnique_eventId_userId ::
  "ident \<Rightarrow> ident \<Rightarrow> db \<Rightarrow> eventRegistration option" where
  "eventRegistration_findUnique_eventId_userId eid uid s =
     find (\<lambda>r. reg_eventId r = eid \<and> reg_userId r = uid) (eventRegistrations s)"

definition waitlistEntry_findUnique_id :: "ident \<Rightarrow> db \<Rightarrow> waitlistEntry option" where
  "waitlistEntry_findUnique_id wid s = find (\<lambda>w. wl_id w = wid) (waitlist s)"

definition waitlistEntry_findUnique_eventId_userId ::
  "ident \<Rightarrow> ident \<Rightarrow> db \<Rightarrow> waitlistEntry option" where
  "waitlistEntry_findUnique_eventId_userId eid uid s =
     find (\<lambda>w. wl_eventId w = eid \<and> wl_userId w = uid) (waitlist s)"

text \<open>
  Insert into \<open>event_registrations\<close>: the primary key and the unique index on
  (eventId, userId) are checked, then the AFTER INSERT trigger runs; an error of the
  trigger fails the insert.
\<close>

definition eventRegistration_create :: "eventRegistration \<Rightarrow> db \<Rightarrow> exn + db" where
  "eventRegistration_create r s =
     (if list_ex (\<lambda>x. reg_id x = reg_id r) (eventRegistrations s)
        then Inl (UniqueConstraintViolation ''event_registrations_pkey'')
      else if list_ex (\<lambda>x. reg_eventId x = reg_eventId r \<and> reg_userId x = reg_userId r)
                (eventRegistrations s)
        then Inl (UniqueConstraintViolation ''event_registrations_eventId_userId_key'')
      else (case update_event_seat_count_INSERT r (events s) of
              Inl e \<Rightarrow> Inl e
            | Inr evs \<Rightarrow> Inr (s\<lparr>eventRegistrations := eventRegistrations s @ [r], events := evs\<rparr>)))"

text \<open>
  Update of the registration rows with a given id; the AFTER UPDATE trigger runs for each
  updated row, and an error of the trigger fails the update. (Every update of the services
  follows a lookup that found the row, so Prisma's error for a missing row does not arise.)
\<close>

definition eventRegistration_update ::
  "ident \<Rightarrow> (eventRegistration \<Rightarrow> eventRegistration) \<Rightarrow> db \<Rightarrow> exn + db" where
  "eventRegistration_update rid f s =
     (case update_event_seat_count_rows
             (map (\<lambda>r. (r, f r)) (filter (\<lambda>r. reg_id r = rid) (eventRegistrations s)))
             (events s) of
        Inl e \<Rightarrow> Inl e
      | Inr evs \<Rightarrow>
          Inr (s\<lparr>eventRegistrations :=
                    map (\<lambda>r. if reg_id r = rid then f r else r) (eventRegistrations s),
                  events := evs\<rparr>))"

text \<open>
  Insert into \<open>waitlist\<close>: the BEFORE INSERT trigger assigns the position, then the primary
  key and the unique index on (eventId, userId) are checked.
\<close>

definition waitlistEntry_create :: "waitlistEntry \<Rightarrow> db \<Rightarrow> exn + (waitlistEntry \<times> db)" where
  "waitlistEntry_create w s =
     (case assign_waitlist_position w (waitlist s) of
        Inl e \<Rightarrow> Inl e
      | Inr w' \<Rightarrow>
          if list_ex (\<lambda>x. wl_id x = wl_id w') (waitlist s)
            then Inl (UniqueConstraintViolation ''waitlist_pkey'')
          else if list_ex (\<lambda>x. wl_eventId x = wl_eventId w' \<and> wl_userId x = wl_userId w')
                    (waitlist s)
            then Inl (UniqueConstraintViolation ''waitlist_eventId_userId_key'')
          else Inr (w', s\<lparr>waitlist := waitlist s @ [w']\<rparr>))"

text \<open>Update of the waitlist rows with a given id; \<open>waitlist\<close> has no update trigger.\<close>

definition waitlistEntry_update :: "ident \<Rightarrow> (waitlistEntry \<Rightarrow> waitlistEntry) \<Rightarrow> db \<Rightarrow> db" where
  "waitlistEntry_update wid f s =
     s\<lparr>waitlist := map (\<lambda>w. if wl_id w = wid then f w else w) (waitlist s)\<rparr>"

text \<open>\<open>prisma.$transaction\<close>: a throw inside the callback rolls the store back.\<close>

definition transaction :: "'a tx \<Rightarrow> 'a tx" where
  "transaction body s =
     (case body s of
        (Inl e, s') \<Rightarrow> (Inl e, s)
      | (Inr a, s') \<Rightarrow> (Inr a, s'))"

subsection \<open>Registration service\<close>

definition validateEventRegistration :: "event \<Rightarrow> timestamp \<Rightarrow> exn option" where
  "validateEventRegistration event now =
     (if ev_status event \<noteq> ''PUBLISHED''
        then Some (BadRequestException ''Event is not open for registration'')
      else case registrationDeadline event of
             None \<Rightarrow> None
           | Some deadline \<Rightarrow>
               if now > deadline
                 then Some (BadRequestException ''Registration deadline has passed'')
               else None)"

text \<open>
  In the functions that create a registration, \<open>now\<close> is the \<open>new Date()\<close> of
  \<open>confirmedAt\<close> and \<open>dbNow\<close> the database's default for \<open>registeredAt\<close>.
\<close>

definition createConfirmedRegistration ::
  "ident \<Rightarrow> ident \<Rightarrow> ident \<Rightarrow> timestamp \<Rightarrow> timestamp \<Rightarrow> result tx" where
  "createConfirmedRegistration userId eventId newId now dbNow s =
     (let r = \<lparr>reg_id = newId, reg_eventId = eventId, reg_userId = userId,
                reg_status = CONFIRMED, paymentStatus = None, stripeSessionId = None,
                registeredAt = dbNow, confirmedAt = Some now, cancelledAt = None,
                cancelReason = None\<rparr>
      in case eventRegistration_create r s of
           Inl e \<Rightarrow> (Inl e, s)
         | Inr s' \<Rightarrow>
             (Inr \<lparr>rtype = ''registration'', registration = Some r, checkoutUrl = None,
                   waitlistEntry = None\<rparr>, s'))"

text \<open>\<open>Number(event.price)\<close>: \<open>Number(null)\<close> is 0.\<close>

definition Number_price :: "int option \<Rightarrow> int" where
  "Number_price p = (case p of None \<Rightarrow> 0 | Some v \<Rightarrow> v)"

definition createPendingRegistration ::
  "stripeService \<Rightarrow> ident \<Rightarrow> ident \<Rightarrow> event \<Rightarrow> ident \<Rightarrow> timestamp \<Rightarrow> result tx" where
  "createPendingRegistration createEventCheckoutSession userId eventId event newId dbNow s =
     (let r = \<lparr>reg_id = newId, reg_eventId = eventId, reg_userId = userId,
                reg_status = PENDING, paymentStatus = Some PAY_PENDING, stripeSessionId = None,
                registeredAt = dbNow, confirmedAt = None, cancelledAt = None,
                cancelReason = None\<rparr>
      in case eventRegistration_create r s of
           Inl e \<Rightarrow> (Inl e, s)
         | Inr s' \<Rightarrow>
             (case createEventCheckoutSession
                     \<lparr>cp_userId = userId, cp_eventId = eventId, cp_registrationId = reg_id r,
                      cp_price = Number_price (price event)\<rparr> of
                Inl e \<Rightarrow> (Inl e, s')
              | Inr url \<Rightarrow>
                  (Inr \<lparr>rtype = ''checkout'', registration = Some r, checkoutUrl = Some url,
                        waitlistEntry = None\<rparr>, s')))"

definition addToWaitlist :: "ident \<Rightarrow> ident \<Rightarrow> ident \<Rightarrow> result tx" where
  "addToWaitlist userId eventId newId s =
     (case waitlistEntry_create
             \<lparr>wl_id = newId, wl_eventId = eventId, wl_userId = userId, position = 0,
              wl_status = WAITING, offeredAt = None, expiresAt = None, respondedAt = None\<rparr> s of
        Inl e \<Rightarrow> (Inl e, s)
      | Inr (w, s') \<Rightarrow>
          (Inr \<lparr>rtype = ''waitlist'', registration = None, checkoutUrl = None,
                waitlistEntry = Some w\<rparr>, s'))"

text \<open>
  \<open>register\<close>: \<open>checkedAt\<close> is the \<open>new Date()\<close> of the deadline check, \<open>now\<close> that of
  \<open>confirmedAt\<close>.
\<close>

definition register_tx ::
  "stripeService \<Rightarrow> ident \<Rightarrow> ident \<Rightarrow> ident \<Rightarrow> timestamp \<Rightarrow> timestamp \<Rightarrow> timestamp \<Rightarrow>
   result tx" where
  "register_tx stripe userId eventId newId checkedAt now dbNow s =
     (case event_findUnique eventId s of
        None \<Rightarrow> (Inl (BadRequestException ''Event not found''), s)
      | Some event \<Rightarrow>
         (case validateEventRegistration event checkedAt of
            Some e \<Rightarrow> (Inl e, s)
          | None \<Rightarrow>
             if (case eventRegistration_findUnique_eventId_userId eventId userId s of
                   None \<Rightarrow> False
                 | Some existingRegistration \<Rightarrow> reg_status existingRegistration \<noteq> CANCELLED)
               then (Inl (ConflictException ''Already registered for this event''), s)
             else if (case waitlistEntry_findUnique_eventId_userId eventId userId s of
                        None \<Rightarrow> False
                      | Some existingWaitlist \<Rightarrow> is_live existingWaitlist)
               then (Inl (ConflictException ''Already on waitlist for this event''), s)
             else if currentSeats event \<ge> maxSeats event
               then addToWaitlist userId eventId newId s
             else if isFree event
               then createConfirmedRegistration userId eventId newId now dbNow s
             else createPendingRegistration stripe userId eventId event newId dbNow s))"

definition register ::
  "stripeService \<Rightarrow> ident \<Rightarrow> ident \<Rightarrow> ident \<Rightarrow> timestamp \<Rightarrow> timestamp \<Rightarrow> timestamp \<Rightarrow>
   result tx" where
  "register stripe userId eventId newId checkedAt now dbNow =
     transaction (register_tx stripe userId eventId newId checkedAt now dbNow)"

definition confirmPayment_tx :: "ident \<Rightarrow> string \<Rightarrow> timestamp \<Rightarrow> unit tx" where
  "confirmPayment_tx registrationId sessionId now s =
     (case eventRegistration_findUnique_id registrationId s of
        None \<Rightarrow> (Inl (Error ''Registration not found''), s)
      | Some r \<Rightarrow>
          if reg_status r \<noteq> PENDING then (Inl (Error ''Registration is not pending''), s)
          else (case eventRegistration_update registrationId
                       (\<lambda>x. x\<lparr>reg_status := CONFIRMED, paymentStatus := Some PAY_COMPLETED,
                               stripeSessionId := Some sessionId, confirmedAt := Some now\<rparr>) s of
                  Inl e \<Rightarrow> (Inl e, s)
                | Inr s' \<Rightarrow> (Inr (), s')))"

definition confirmPayment :: "ident \<Rightarrow> string \<Rightarrow> timestamp \<Rightarrow> unit tx" where
  "confirmPayment registrationId sessionId now =
     transaction (confirmPayment_tx registrationId sessionId now)"

subsection \<open>Waitlist service\<close>

text \<open>
  \<open>offerSpot\<close> looks at the clock twice: \<open>expiresBase\<close> is the \<open>new Date()\<close> to which
  \<open>setHours(getHours() + 48)\<close> is applied, \<open>offeredNow\<close> the later one written to
  \<open>offeredAt\<close>.
\<close>

definition offerSpot :: "zone \<Rightarrow> waitlistEntry \<Rightarrow> timestamp \<Rightarrow> timestamp \<Rightarrow> db \<Rightarrow> db" where
  "offerSpot z entry expiresBase offeredNow s =
     (let expires = setHours_plus z 48 expiresBase
      in waitlistEntry_update (wl_id entry)
           (\<lambda>w. w\<lparr>wl_status := OFFERED, offeredAt := Some offeredNow,
                   expiresAt := Some expires\<rparr>) s)"

text \<open>\<open>findFirst\<close> with \<open>orderBy: { position: 'asc' }\<close> over the WAITING entries of the event.\<close>

definition nextInLine :: "ident \<Rightarrow> db \<Rightarrow> waitlistEntry option" where
  "nextInLine eventId s =
     (case sort_key position
             (filter (\<lambda>w. wl_eventId w = eventId \<and> wl_status w = WAITING) (waitlist s)) of
        [] \<Rightarrow> None
      | w # ws \<Rightarrow> Some w)"

definition processWaitlist :: "zone \<Rightarrow> ident \<Rightarrow> timestamp \<Rightarrow> timestamp \<Rightarrow> db \<Rightarrow> db" where
  "processWaitlist z eventId expiresBase offeredNow s =
     (case event_findUnique eventId s of
        None \<Rightarrow> s
      | Some event \<Rightarrow>
          if currentSeats event \<ge> maxSeats event then s
          else (case nextInLine eventId s of
                  None \<Rightarrow> s
                | Some entry \<Rightarrow> offerSpot z entry expiresBase offeredNow s))"

text \<open>
  \<open>cancelRegistration\<close>: \<open>now\<close> is the \<open>new Date()\<close> of \<open>cancelledAt\<close>. The optional
  argument \<open>reason\<close> is \<open>None\<close> when it is omitted; Prisma leaves a column whose value is
  \<open>undefined\<close> as it is.
\<close>

definition cancelRegistration_tx ::
  "zone \<Rightarrow> ident \<Rightarrow> ident \<Rightarrow> string option \<Rightarrow> timestamp \<Rightarrow> timestamp \<Rightarrow> timestamp \<Rightarrow>
   unit tx" where
  "cancelRegistration_tx z userId eventId reason now expiresBase offeredNow s =
     (case eventRegistration_findUnique_eventId_userId eventId userId s of
        None \<Rightarrow> (Inl (BadRequestException ''Registration not found''), s)
      | Some r \<Rightarrow>
          if \<not> (reg_status r = PENDING \<or> reg_status r = CONFIRMED)
            then (Inl (BadRequestException ''Cannot cancel this registration''), s)
          else
            (case eventRegistration_update (reg_id r)
                    (\<lambda>x. x\<lparr>reg_status := CANCELLED, cancelledAt := Some now,
                            cancelReason := (case reason of
                                               None \<Rightarrow> cancelReason x
                                             | Some text \<Rightarrow> Some text)\<rparr>) s of
               Inl e \<Rightarrow> (Inl e, s)
             | Inr s' \<Rightarrow>
                 if reg_status r = CONFIRMED
                   then (Inr (), processWaitlist z eventId expiresBase offeredNow s')
                 else (Inr (), s')))"

definition cancelRegistration ::
  "zone \<Rightarrow> ident \<Rightarrow> ident \<Rightarrow> string option \<Rightarrow> timestamp \<Rightarrow> timestamp \<Rightarrow> timestamp \<Rightarrow>
   unit tx" where
  "cancelRegistration z userId eventId reason now expiresBase offeredNow =
     transaction (cancelRegistration_tx z userId eventId reason now expiresBase offeredNow)"

definition offer_expired :: "waitlistEntry \<Rightarrow> timestamp \<Rightarrow> bool" where
  "offer_expired entry now =
     (case expiresAt entry of None \<Rightarrow> False | Some t \<Rightarrow> now > t)"

text \<open>The update of \<open>acceptOffer\<close> that marks the entry accepted.\<close>

definition markAccepted :: "waitlistEntry \<Rightarrow> timestamp \<Rightarrow> db \<Rightarrow> db" where
  "markAccepted entry now s =
     waitlistEntry_update (wl_id entry)
       (\<lambda>w. w\<lparr>wl_status := ACCEPTED, respondedAt := Some now\<rparr>) s"

text \<open>
  \<open>acceptOffer\<close>: \<open>checkedAt\<close> is the \<open>new Date()\<close> of the expiry check, \<open>respondedNow\<close>
  that of \<open>respondedAt\<close>, \<open>now\<close> that of \<open>confirmedAt\<close>.
\<close>

definition acceptOffer_tx ::
  "ident \<Rightarrow> ident \<Rightarrow> ident \<Rightarrow> timestamp \<Rightarrow> timestamp \<Rightarrow> timestamp \<Rightarrow> timestamp \<Rightarrow>
   result tx" where
  "acceptOffer_tx userId waitlistEntryId newId checkedAt respondedNow now dbNow s =
     (case waitlistEntry_findUnique_id waitlistEntryId s of
        None \<Rightarrow> (Inl (BadRequestException ''Waitlist entry not found''), s)
      | Some entry \<Rightarrow>
          if wl_userId entry \<noteq> userId then (Inl (BadRequestException ''Not authorized''), s)
          else if wl_status entry \<noteq> OFFERED
            then (Inl (BadRequestException ''No active offer for this entry''), s)
          else if offer_expired entry checkedAt
            then (Inl (BadRequestException ''Offer has expired''),
                  waitlistEntry_update (wl_id entry)
                    (\<lambda>w. w\<lparr>wl_status := EXPIRED, respondedAt := Some respondedNow\<rparr>) s)
          else
            (case event_findUnique (wl_eventId entry) s of
               None \<Rightarrow> (Inl (BadRequestException ''No spots available''), s)
             | Some event \<Rightarrow>
                 if currentSeats event \<ge> maxSeats event
                   then (Inl (BadRequestException ''No spots available''), s)
                 else
                   (let s1 = markAccepted entry respondedNow s
                    in if isFree event then
                         (let r = \<lparr>reg_id = newId, reg_eventId = wl_eventId entry,
                                    reg_userId = wl_userId entry, reg_status = CONFIRMED,
                                    paymentStatus = None, stripeSessionId = None,
                                    registeredAt = dbNow, confirmedAt = Some now,
                                    cancelledAt = None, cancelReason = None\<rparr>
                          in case eventRegistration_create r s1 of
                               Inl e \<Rightarrow> (Inl e, s1)
                             | Inr s2 \<Rightarrow>
                                 (Inr \<lparr>rtype = ''confirmed'', registration = Some r,
                                       checkoutUrl = None, waitlistEntry = None\<rparr>, s2))
                       else
                         (let r = \<lparr>reg_id = newId, reg_eventId = wl_eventId entry,
                                    reg_userId = wl_userId entry, reg_status = PENDING,
                                    paymentStatus = Some PAY_PENDING, stripeSessionId = None,
                                    registeredAt = dbNow, confirmedAt = None,
                                    cancelledAt = None, cancelReason = None\<rparr>
                          in case eventRegistration_create r s1 of
                               Inl e \<Rightarrow> (Inl e, s1)
                             | Inr s2 \<Rightarrow>
                                 (Inr \<lparr>rtype = ''pending'', registration = Some r,
                                       checkoutUrl = None, waitlistEntry = None\<rparr>, s2)))))"

definition acceptOffer ::
  "ident \<Rightarrow> ident \<Rightarrow> ident \<Rightarrow> timestamp \<Rightarrow> timestamp \<Rightarrow> timestamp \<Rightarrow> timestamp \<Rightarrow>
   result tx" where
  "acceptOffer userId waitlistEntryId newId checkedAt respondedNow now dbNow =
     transaction (acceptOffer_tx userId waitlistEntryId newId checkedAt respondedNow now dbNow)"

definition declineOffer_tx ::
  "zone \<Rightarrow> ident \<Rightarrow> ident \<Rightarrow> timestamp \<Rightarrow> timestamp \<Rightarrow> timestamp \<Rightarrow> unit tx" where
  "declineOffer_tx z userId waitlistEntryId now expiresBase offeredNow s =
     (case waitlistEntry_findUnique_id waitlistEntryId s of
        None \<Rightarrow> (Inl (BadRequestException ''Waitlist entry not found''), s)
      | Some entry \<Rightarrow>
          if wl_userId entry \<noteq> userId then (Inl (BadRequestException ''Not authorized''), s)
          else if wl_status entry \<noteq> OFFERED
            then (Inl (BadRequestException ''No active offer to decline''), s)
          else (Inr (),
                processWaitlist z (wl_eventId entry) expiresBase offeredNow
                  (waitlistEntry_update (wl_id entry)
                     (\<lambda>w. w\<lparr>wl_status := DECLINED, respondedAt := Some now\<rparr>) s)))"

definition declineOffer ::
  "zone \<Rightarrow> ident \<Rightarrow> ident \<Rightarrow> timestamp \<Rightarrow> timestamp \<Rightarrow> timestamp \<Rightarrow> unit tx" where
  "declineOffer z userId waitlistEntryId now expiresBase offeredNow =
     transaction (declineOffer_tx z userId waitlistEntryId now expiresBase offeredNow)"

definition reorderWaitlistPositions :: "ident \<Rightarrow> db \<Rightarrow> db" where
  "reorderWaitlistPositions eventId s =
     (let activeEntries =
            sort_key position
              (filter (\<lambda>w. wl_eventId w = eventId \<and> wl_status w = WAITING) (waitlist s))
      in foldl (\<lambda>s' (i, a). waitlistEntry_update (wl_id a) (\<lambda>w. w\<lparr>position := int i + 1\<rparr>) s')
           s (enumerate 0 activeEntries))"

text \<open>
  \<open>processExpiredOffers\<close>: \<open>now\<close> is the \<open>new Date()\<close> read at the start; \<open>reads i\<close> are
  the two clock readings of \<open>offerSpot\<close> in the transaction of the \<open>i\<close>-th expired offer.
\<close>

definition processExpiredOffers ::
  "zone \<Rightarrow> timestamp \<Rightarrow> (nat \<Rightarrow> timestamp \<times> timestamp) \<Rightarrow> db \<Rightarrow> nat \<times> db" where
  "processExpiredOffers z now reads s =
     (let expiredOffers =
            filter (\<lambda>w. wl_status w = OFFERED \<and>
                         (case expiresAt w of None \<Rightarrow> False | Some t \<Rightarrow> t < now))
              (waitlist s)
      in (length expiredOffers,
          foldl (\<lambda>s' (i, offer).
                   processWaitlist z (wl_eventId offer) (fst (reads i)) (snd (reads i))
                     (reorderWaitlistPositions (wl_eventId offer)
                        (waitlistEntry_update (wl_id offer) (\<lambda>w. w\<lparr>wl_status := EXPIRED\<rparr>) s')))
            s (enumerate 0 expiredOffers)))"

subsection \<open>Cron operation on stale registrations\<close>

text \<open>
  \<open>cleanupPendingRegistrations\<close>: the cutoff is \<open>now\<close> with \<open>setHours(getHours() - 24)\<close>;
  each stale PENDING row is cancelled in a transaction of its own, and an exception ends
  the loop, keeping what the earlier iterations committed. \<open>reads i\<close> are the three clock
  readings of the \<open>i\<close>-th call of \<open>cancelRegistration\<close>.
\<close>

fun cleanup_loop ::
  "zone \<Rightarrow> (nat \<Rightarrow> timestamp \<times> timestamp \<times> timestamp) \<Rightarrow> (nat \<times> eventRegistration) list \<Rightarrow>
   nat \<Rightarrow> db \<Rightarrow> (exn + nat) \<times> db" where
  "cleanup_loop z reads [] cleaned s = (Inr cleaned, s)"
| "cleanup_loop z reads ((i, r) # stale) cleaned s =
     (case cancelRegistration z (reg_userId r) (reg_eventId r)
             (Some ''Payment timeout - auto cancelled'')
             (fst (reads i)) (fst (snd (reads i))) (snd (snd (reads i))) s of
        (Inl e, s') \<Rightarrow> (Inl e, s')
      | (Inr u, s') \<Rightarrow> cleanup_loop z reads stale (cleaned + 1) s')"

definition cleanupPendingRegistrations ::
  "zone \<Rightarrow> timestamp \<Rightarrow> (nat \<Rightarrow> timestamp \<times> timestamp \<times> timestamp) \<Rightarrow> db \<Rightarrow>
   (exn + nat) \<times> db" where
  "cleanupPendingRegistrations z now reads s =
     (let cutoff = setHours_plus z (- 24) now;
          stale = filter (\<lambda>r. reg_status r = PENDING \<and> registeredAt r < cutoff)
                    (eventRegistrations s)
      in cleanup_loop z reads (enumerate 0 stale) 0 s)"

subsection \<open>Sequences of operations\<close>

text \<open>
  The operations that write to the store. The third cron operation, the sending of event
  reminders, only reads the store and sends e-mail.
\<close>

datatype op =
    Register ident ident ident timestamp timestamp timestamp
  | ConfirmPayment ident string timestamp
  | CancelRegistration ident ident "string option" timestamp timestamp timestamp
  | AcceptOffer ident ident ident timestamp timestamp timestamp timestamp
  | DeclineOffer ident ident timestamp timestamp timestamp
  | ProcessExpiredOffers timestamp "nat \<Rightarrow> timestamp \<times> timestamp"
  | CleanupPendingRegistrations timestamp "nat \<Rightarrow> timestamp \<times> timestamp \<times> timestamp"

fun exec :: "stripeService \<Rightarrow> zone \<Rightarrow> db \<Rightarrow> op \<Rightarrow> db" where
  "exec stripe z s (Register userId eventId newId checkedAt now dbNow) =
     snd (register stripe userId eventId newId checkedAt now dbNow s)"
| "exec stripe z s (ConfirmPayment registrationId sessionId now) =
     snd (confirmPayment registrationId sessionId now s)"
| "exec stripe z s (CancelRegistration userId eventId reason now expiresBase offeredNow) =
     snd (cancelRegistration z userId eventId reason now expiresBase offeredNow s)"
| "exec stripe z s (AcceptOffer userId waitlistEntryId newId checkedAt respondedNow now dbNow) =
     snd (acceptOffer userId waitlistEntryId newId checkedAt respondedNow now dbNow s)"
| "exec stripe z s (DeclineOffer userId waitlistEntryId now expiresBase offeredNow) =
     snd (declineOffer z userId waitlistEntryId now expiresBase offeredNow s)"
| "exec stripe z s (ProcessExpiredOffers now reads) = snd (processExpiredOffers z now reads s)"
| "exec stripe z s (CleanupPendingRegistrations now reads) =
     snd (cleanupPendingRegistrations z now reads s)"

definition run :: "stripeService \<Rightarrow> zone \<Rightarrow> db \<Rightarrow> op list \<Rightarrow> db" where
  "run stripe z s ops = foldl (exec stripe z) s ops"



definition within_capacity :: "db \<Rightarrow> bool" where
  "within_capacity s \<longleftrightarrow>
     list_all (\<lambda>e. 0 \<le> currentSeats e \<and> currentSeats e \<le> maxSeats e) (events s)"

subsection \<open>Concrete stores and collaborators\<close>

text \<open>A freshly created event: no registrations, no waitlist, seat counter at its default 0.\<close>

definition new_event :: "ident \<Rightarrow> int \<Rightarrow> bool \<Rightarrow> int option \<Rightarrow> event" where
  "new_event eid seats free p =
     \<lparr>ev_id = eid, maxSeats = seats, currentSeats = 0, isFree = free, price = p,
      registrationDeadline = None, ev_status = ''PUBLISHED''\<rparr>"

definition initial_db :: "event \<Rightarrow> db" where
  "initial_db e = \<lparr>events = [e], eventRegistrations = [], waitlist = []\<rparr>"

text \<open>A payment collaborator that answers every request, and one that fails on every request.\<close>

definition stripe_ok :: stripeService where
  "stripe_ok p = Inr (''https://checkout/'' @ cp_registrationId p)"

definition stripe_down :: stripeService where
  "stripe_down p = Inl (BadRequestException ''Failed to create checkout session'')"

text \<open>
  Two time zones: UTC, and a zone whose clocks go forward by one hour at the instant
  86400000 (local time 86400000 becomes 90000000).
\<close>

definition utc :: zone where
  "utc = \<lparr>utcOffset = (\<lambda>t. 0), localOffset = (\<lambda>l. 0)\<rparr>"


text \<open>
  Stores reached by the operations from a freshly created event. \<open>paid_pending_db\<close>: a
  paid event with one seat on which \<open>u1\<close> has registered and not yet paid.
  \<open>cancelled_db\<close>: a paid event with two seats on which \<open>u1\<close> registered and then
  cancelled before paying. \<open>deadline_db\<close>: as \<open>paid_pending_db\<close>, on an event whose
  registration deadline is 100.
\<close>

definition paid_pending_db :: db where
  "paid_pending_db =
     run stripe_ok utc (initial_db (new_event ''e1'' 1 False (Some 5000)))
       [Register ''u1'' ''e1'' ''r1'' 10 10 10]"

definition cancelled_db :: db where
  "cancelled_db =
     run stripe_ok utc (initial_db (new_event ''e1'' 2 False (Some 5000)))
       [Register ''u1'' ''e1'' ''r1'' 10 10 10,
        CancelRegistration ''u1'' ''e1'' None 20 20 20]"

definition deadline_db :: db where
  "deadline_db =
     run stripe_ok utc
       (initial_db ((new_event ''e1'' 1 False (Some 5000))\<lparr>registrationDeadline := Some 100\<rparr>))
       [Register ''u1'' ''e1'' ''r1'' 10 10 10]"






definition completed_db :: db where
  "completed_db =
     \<lparr>events = [\<lparr>ev_id = ''e1'', maxSeats = 5, currentSeats = 0, isFree = True, price = None,
                  registrationDeadline = None, ev_status = ''PUBLISHED''\<rparr>],
      eventRegistrations =
        [\<lparr>reg_id = ''r1'', reg_eventId = ''e1'', reg_userId = ''u1'', reg_status = COMPLETED,
          paymentStatus = None, stripeSessionId = None, registeredAt = 10,
          confirmedAt = Some 10, cancelledAt = None, cancelReason = None\<rparr>],
      waitlist = []\<rparr>"

definition ended_db :: db where
  "ended_db =
     completed_db\<lparr>events :=
       [\<lparr>ev_id = ''e1'', maxSeats = 5, currentSeats = 0, isFree = True, price = None,
         registrationDeadline = None, ev_status = ''COMPLETED''\<rparr>]\<rparr>"

section \<open>Properties\<close>

subsection \<open>What no operation changes\<close>

text \<open>
  No operation changes the table of events, and no operation adds a row to the waitlist:
  every statement that would do so is in a trigger branch that raises, and the exception
  rolls the transaction back.
\<close>

lemma update_event_seat_count_rows_Inr:
  "update_event_seat_count_rows rows evs = Inr evs' \<Longrightarrow> evs' = evs"
proof (induction rows arbitrary: evs)
  case Nil
  then show ?case by simp
next
  case (Cons p rows)
  obtain old new where p: "p = (old, new)" by (cases p)
  from Cons.prems p obtain evs1 where
    a: "update_event_seat_count_UPDATE old new evs = Inr evs1"
    and b: "update_event_seat_count_rows rows evs1 = Inr evs'"
    by (auto split: sum.splits)
  from a have "evs1 = evs"
    by (auto simp: update_event_seat_count_UPDATE_def UPDATE_events_SET_current_seats_def
        split: if_splits)
  with Cons.IH[OF b] show ?case by simp
qed

lemma eventRegistration_update_Inr:
  assumes "eventRegistration_update rid f s = Inr s'"
  shows "events s' = events s" and "waitlist s' = waitlist s"
  using assms update_event_seat_count_rows_Inr
  by (auto simp: eventRegistration_update_def split: sum.splits)

lemma eventRegistration_create_Inr:
  assumes "eventRegistration_create r s = Inr s'"
  shows "events s' = events s" and "waitlist s' = waitlist s"
  using assms
  by (auto simp: eventRegistration_create_def update_event_seat_count_INSERT_def
      UPDATE_events_SET_current_seats_def split: sum.splits if_splits)

lemma waitlistEntry_create_raises:
  "waitlistEntry_create w s = Inl (UndefinedColumn ''event_id'')"
  by (simp add: waitlistEntry_create_def assign_waitlist_position_def)

lemma waitlistEntry_update_keeps:
  "events (waitlistEntry_update wid f s) = events s"
  "waitlist s = [] \<Longrightarrow> waitlist (waitlistEntry_update wid f s) = []"
  by (simp_all add: waitlistEntry_update_def)

lemma processWaitlist_keeps:
  "events (processWaitlist z eid t1 t2 s) = events s"
  "waitlist s = [] \<Longrightarrow> waitlist (processWaitlist z eid t1 t2 s) = []"
  by (simp_all add: processWaitlist_def offerSpot_def waitlistEntry_update_def
      split: option.splits)

lemma foldl_keeps:
  assumes "\<And>a x. g (f a x) = g a"
  shows "g (foldl f a xs) = g a"
  using assms by (induction xs arbitrary: a) simp_all

lemma foldl_keeps_pred:
  assumes "\<And>a x. Q a \<Longrightarrow> Q (f a x)" and "Q a"
  shows "Q (foldl f a xs)"
  using assms by (induction xs arbitrary: a) simp_all

lemma reorderWaitlistPositions_keeps:
  "events (reorderWaitlistPositions eid s) = events s"
  "waitlist s = [] \<Longrightarrow> waitlist (reorderWaitlistPositions eid s) = []"
proof -
  show "events (reorderWaitlistPositions eid s) = events s"
    unfolding reorderWaitlistPositions_def Let_def
    by (rule foldl_keeps) (simp add: waitlistEntry_update_keeps split: prod.splits)
  show "waitlist s = [] \<Longrightarrow> waitlist (reorderWaitlistPositions eid s) = []"
    by (simp add: reorderWaitlistPositions_def)
qed

lemma register_keeps:
  "events (snd (register stripe uid eid newId t1 t2 t3 s)) = events s"
  "waitlist s = [] \<Longrightarrow> waitlist (snd (register stripe uid eid newId t1 t2 t3 s)) = []"
proof -
  have "events (snd (register stripe uid eid newId t1 t2 t3 s)) = events s \<and>
        waitlist (snd (register stripe uid eid newId t1 t2 t3 s)) = waitlist s"
    using eventRegistration_create_Inr
    by (auto simp: register_def transaction_def register_tx_def addToWaitlist_def
        waitlistEntry_create_raises createConfirmedRegistration_def
        createPendingRegistration_def Let_def
        split: option.splits sum.splits prod.splits if_splits)
  then show "events (snd (register stripe uid eid newId t1 t2 t3 s)) = events s"
    and "waitlist s = [] \<Longrightarrow> waitlist (snd (register stripe uid eid newId t1 t2 t3 s)) = []"
    by simp_all
qed

lemma confirmPayment_keeps:
  "events (snd (confirmPayment rid sid now s)) = events s"
  "waitlist s = [] \<Longrightarrow> waitlist (snd (confirmPayment rid sid now s)) = []"
  using eventRegistration_update_Inr
  by (auto simp: confirmPayment_def transaction_def confirmPayment_tx_def
      split: option.splits sum.splits prod.splits if_splits)

lemma cancelRegistration_keeps:
  "events (snd (cancelRegistration z uid eid reason now t1 t2 s)) = events s"
  "waitlist s = [] \<Longrightarrow> waitlist (snd (cancelRegistration z uid eid reason now t1 t2 s)) = []"
  using eventRegistration_update_Inr
  by (auto simp: cancelRegistration_def transaction_def cancelRegistration_tx_def
      processWaitlist_keeps
      split: option.splits sum.splits prod.splits if_splits)

lemma acceptOffer_keeps:
  "events (snd (acceptOffer uid wid newId t1 t2 t3 t4 s)) = events s"
  "waitlist s = [] \<Longrightarrow> waitlist (snd (acceptOffer uid wid newId t1 t2 t3 t4 s)) = []"
proof -
  show "waitlist s = [] \<Longrightarrow> waitlist (snd (acceptOffer uid wid newId t1 t2 t3 t4 s)) = []"
    by (simp add: acceptOffer_def transaction_def acceptOffer_tx_def
        waitlistEntry_findUnique_id_def)
  have m: "events (markAccepted entry t2 s) = events s" for entry
    by (simp add: markAccepted_def waitlistEntry_update_keeps)
  show "events (snd (acceptOffer uid wid newId t1 t2 t3 t4 s)) = events s"
    using eventRegistration_create_Inr(1) m
    by (auto simp: acceptOffer_def transaction_def acceptOffer_tx_def Let_def
        split: option.splits sum.splits prod.splits if_splits)
qed

lemma declineOffer_keeps:
  "events (snd (declineOffer z uid wid now t1 t2 s)) = events s"
  "waitlist s = [] \<Longrightarrow> waitlist (snd (declineOffer z uid wid now t1 t2 s)) = []"
  by (auto simp: declineOffer_def transaction_def declineOffer_tx_def
      processWaitlist_keeps waitlistEntry_update_keeps waitlistEntry_findUnique_id_def
      split: option.splits sum.splits prod.splits if_splits)

lemma processExpiredOffers_keeps:
  "events (snd (processExpiredOffers z now reads s)) = events s"
  "waitlist s = [] \<Longrightarrow> waitlist (snd (processExpiredOffers z now reads s)) = []"
proof -
  show "events (snd (processExpiredOffers z now reads s)) = events s"
    unfolding processExpiredOffers_def Let_def snd_conv
    by (rule foldl_keeps)
       (simp add: processWaitlist_keeps reorderWaitlistPositions_keeps waitlistEntry_update_keeps
          split: prod.splits)
  show "waitlist s = [] \<Longrightarrow> waitlist (snd (processExpiredOffers z now reads s)) = []"
    by (simp add: processExpiredOffers_def)
qed

lemma cleanup_loop_events:
  "events (snd (cleanup_loop z reads stale n s)) = events s"
proof (induction stale arbitrary: n s)
  case Nil
  then show ?case by simp
next
  case (Cons p stale)
  obtain i r where p: "p = (i, r)" by (cases p)
  let ?c = "cancelRegistration z (reg_userId r) (reg_eventId r)
             (Some ''Payment timeout - auto cancelled'')
             (fst (reads i)) (fst (snd (reads i))) (snd (snd (reads i))) s"
  have e: "events (snd ?c) = events s" by (rule cancelRegistration_keeps)
  obtain a s' where c: "?c = (a, s')" by (cases ?c)
  with e have es: "events s' = events s" by simp
  show ?case
  proof (cases a)
    case (Inl x)
    with p c es show ?thesis by simp
  next
    case (Inr u)
    with p c es Cons.IH[of "n + 1" s'] show ?thesis by simp
  qed
qed

lemma cleanup_loop_waitlist:
  "waitlist s = [] \<Longrightarrow> waitlist (snd (cleanup_loop z reads stale n s)) = []"
proof (induction stale arbitrary: n s)
  case Nil
  then show ?case by simp
next
  case (Cons p stale)
  obtain i r where p: "p = (i, r)" by (cases p)
  let ?c = "cancelRegistration z (reg_userId r) (reg_eventId r)
             (Some ''Payment timeout - auto cancelled'')
             (fst (reads i)) (fst (snd (reads i))) (snd (snd (reads i))) s"
  from Cons.prems have w: "waitlist (snd ?c) = []" by (rule cancelRegistration_keeps)
  obtain a s' where c: "?c = (a, s')" by (cases ?c)
  with w have ws: "waitlist s' = []" by simp
  show ?case
  proof (cases a)
    case (Inl x)
    with p c ws show ?thesis by simp
  next
    case (Inr u)
    with p c Cons.IH[OF ws, of "n + 1"] show ?thesis by simp
  qed
qed

lemma cleanupPendingRegistrations_keeps:
  "events (snd (cleanupPendingRegistrations z now reads s)) = events s"
  "waitlist s = [] \<Longrightarrow> waitlist (snd (cleanupPendingRegistrations z now reads s)) = []"
  by (simp_all add: cleanupPendingRegistrations_def Let_def cleanup_loop_events
      cleanup_loop_waitlist)

lemma exec_keeps:
  "events (exec stripe z s op) = events s"
  "waitlist s = [] \<Longrightarrow> waitlist (exec stripe z s op) = []"
  by (cases op; simp add: register_keeps confirmPayment_keeps cancelRegistration_keeps
        acceptOffer_keeps declineOffer_keeps processExpiredOffers_keeps
        cleanupPendingRegistrations_keeps)+

lemma run_keeps:
  "events (run stripe z s ops) = events s"
  "waitlist s = [] \<Longrightarrow> waitlist (run stripe z s ops) = []"
proof -
  show "events (run stripe z s ops) = events s"
    unfolding run_def by (rule foldl_keeps) (rule exec_keeps)
  show "waitlist s = [] \<Longrightarrow> waitlist (run stripe z s ops) = []"
    unfolding run_def
    by (rule foldl_keeps_pred[where Q = "\<lambda>s. waitlist s = []"]) (simp_all add: exec_keeps)
qed

subsection \<open>Seat counter\<close>

text \<open>
  Claim C1. From a store in which every event has \<open>0 \<le> currentSeats \<le> maxSeats\<close>, every
  sequence of register, confirmPayment, cancelRegistration, acceptOffer, declineOffer and
  sweep operations leaves the table of events as it was, so that the bounds hold in every
  store the sequence reaches; in particular \<open>confirmPayment\<close> does not raise a counter.
\<close>

theorem seat_count_within_capacity:
  assumes "within_capacity s"
  shows "events (run stripe z s ops) = events s \<and> within_capacity (run stripe z s ops)"
  using assms run_keeps(1)[of stripe z s ops] by (simp add: within_capacity_def)

theorem seat_count_within_capacity_witness:
  "within_capacity (initial_db (new_event ''e1'' 1 False (Some 5000))) \<and>
   within_capacity
     (run stripe_ok utc (initial_db (new_event ''e1'' 1 False (Some 5000)))
        [Register ''u1'' ''e1'' ''r1'' 10 10 10, Register ''u2'' ''e1'' ''r2'' 20 20 20,
         ConfirmPayment ''r1'' ''cs_1'' 30, ConfirmPayment ''r2'' ''cs_2'' 40]) \<and>
   map (\<lambda>e. (maxSeats e, currentSeats e))
     (events
        (run stripe_ok utc (initial_db (new_event ''e1'' 1 False (Some 5000)))
           [Register ''u1'' ''e1'' ''r1'' 10 10 10, Register ''u2'' ''e1'' ''r2'' 20 20 20,
            ConfirmPayment ''r1'' ''cs_1'' 30, ConfirmPayment ''r2'' ''cs_2'' 40])) = [(1, 0)]"
proof -
  let ?s = "initial_db (new_event ''e1'' 1 False (Some 5000))"
  let ?ops = "[Register ''u1'' ''e1'' ''r1'' 10 10 10, Register ''u2'' ''e1'' ''r2'' 20 20 20,
               ConfirmPayment ''r1'' ''cs_1'' 30, ConfirmPayment ''r2'' ''cs_2'' 40]"
  have h: "within_capacity ?s" by code_simp
  have e: "map (\<lambda>e. (maxSeats e, currentSeats e)) (events ?s) = [(1, 0)]" by code_simp
  from seat_count_within_capacity[OF h, of stripe_ok utc ?ops]
  have "events (run stripe_ok utc ?s ?ops) = events ?s"
    and "within_capacity (run stripe_ok utc ?s ?ops)" by simp_all
  with h e show ?thesis by simp
qed

subsection \<open>Waitlist positions\<close>



subsection \<open>Payment confirmation\<close>

text \<open>
  Claim C2. The claim says that \<open>confirmPayment\<close> confirms a PENDING registration, that a
  second call is then rejected by the status guard, that the registration stays CONFIRMED
  and that the seat counter has gone up once. In \<open>paid_pending_db\<close> the registration
  \<open>r1\<close> is PENDING. The update to CONFIRMED reaches the UPDATE statement of the seat
  trigger, which raises, and the transaction is rolled back: the call fails with the
  database error and the store is unchanged, the row still PENDING and the counter still 0.
  A second call fails in the same way, not by the status guard.
\<close>

theorem confirmPayment_raises_in_seat_trigger:
  "map (\<lambda>r. (reg_id r, reg_status r)) (eventRegistrations paid_pending_db) =
     [(''r1'', PENDING)] \<and>
   map (\<lambda>e. (maxSeats e, currentSeats e)) (events paid_pending_db) = [(1, 0)] \<and>
   confirmPayment ''r1'' ''cs_1'' 30 paid_pending_db =
     (Inl (UndefinedColumn ''current_seats''), paid_pending_db) \<and>
   run stripe_ok utc paid_pending_db
     [ConfirmPayment ''r1'' ''cs_1'' 30, ConfirmPayment ''r1'' ''cs_1'' 40] = paid_pending_db"
  by code_simp

subsection \<open>Registration after a cancellation\<close>

text \<open>
  Claim C3. The claim says that a cancelled row does not block a new registration. In
  \<open>cancelled_db\<close> the only row of \<open>u1\<close> for \<open>e1\<close> is CANCELLED and a seat is free;
  \<open>register\<close> passes its own duplicate check, and the insert then violates the unique
  index on (eventId, userId): the call fails and the store is unchanged.
\<close>

theorem register_after_cancel_violates_unique_index:
  "map (\<lambda>r. (reg_eventId r, reg_userId r, reg_status r)) (eventRegistrations cancelled_db) =
     [(''e1'', ''u1'', CANCELLED)] \<and>
   map (\<lambda>e. (maxSeats e, currentSeats e)) (events cancelled_db) = [(2, 0)] \<and>
   register stripe_ok ''u1'' ''e1'' ''r2'' 30 30 30 cancelled_db =
     (Inl (UniqueConstraintViolation ''event_registrations_eventId_userId_key''), cancelled_db)"
  by code_simp

subsection \<open>Checkout failure\<close>

text \<open>
  Claim C8. The claim says that when checkout creation fails the new registration stays in
  the store with status PENDING. The checkout session is created inside the transaction of
  \<open>register\<close>: at the throw the PENDING row is in the store, and the rollback removes it.
\<close>

theorem register_checkout_failure_is_rolled_back:
  "map (\<lambda>r. (reg_id r, reg_status r))
     (eventRegistrations
        (snd (register_tx stripe_down ''u1'' ''e1'' ''r1'' 10 10 10
                (initial_db (new_event ''e1'' 1 False (Some 5000)))))) = [(''r1'', PENDING)] \<and>
   register stripe_down ''u1'' ''e1'' ''r1'' 10 10 10
       (initial_db (new_event ''e1'' 1 False (Some 5000))) =
     (Inl (BadRequestException ''Failed to create checkout session''),
      initial_db (new_event ''e1'' 1 False (Some 5000))) \<and>
   eventRegistrations (initial_db (new_event ''e1'' 1 False (Some 5000))) = []"
  by code_simp


subsection \<open>Lookups and updates under a primary key\<close>


lemma find_map_upd:
  "find P xs = Some r \<Longrightarrow> P (g r) \<Longrightarrow> find P (map (\<lambda>x. if P x then g x else x) xs) = Some (g r)"
  by (induction xs) (auto split: if_splits)






lemma find_distinct_key:
  "distinct (map f xs) \<Longrightarrow> r \<in> set xs \<Longrightarrow> find (\<lambda>x. f x = f r) xs = Some r"
proof (induction xs)
  case Nil
  then show ?case by simp
next
  case (Cons a xs)
  show ?case
  proof (cases "a = r")
    case True
    then show ?thesis by simp
  next
    case False
    with Cons.prems have "r \<in> set xs" by simp
    with Cons.prems have "f a \<noteq> f r" by auto
    with Cons \<open>r \<in> set xs\<close> show ?thesis by simp
  qed
qed



subsection \<open>Cancellation\<close>




subsection \<open>Waitlist promotion\<close>





subsection \<open>Accepting an expired offer\<close>




subsection \<open>Accepting an offer\<close>




subsection \<open>Duplicate registration\<close>

lemma register_tx_already_registered:
  assumes "eventRegistration_findUnique_eventId_userId eid uid s = Some r"
    and "reg_status r \<noteq> CANCELLED"
  shows "\<exists>e. register stripe uid eid newId checkedAt now dbNow s = (Inl e, s)"
  using assms
  by (simp add: register_def transaction_def register_tx_def split: option.splits)

text \<open>
  Claim C10, as stated, says that \<open>register\<close> rejects with the conflict "Already registered"
  whenever a row with a status other than CANCELLED exists for the pair. The event is
  validated before the duplicate check: in \<open>ended_db\<close> the row of \<open>u1\<close> is COMPLETED and the
  event is no longer PUBLISHED, and \<open>register\<close> fails with "Event is not open for
  registration"; in \<open>deadline_db\<close> the row of \<open>u1\<close> is PENDING and the deadline 100 has
  passed at 200, and \<open>register\<close> fails with "Registration deadline has passed".
\<close>

theorem register_not_open_is_not_a_conflict:
  "map (\<lambda>r. (reg_eventId r, reg_userId r, reg_status r)) (eventRegistrations ended_db) =
     [(''e1'', ''u1'', COMPLETED)] \<and>
   map ev_status (events ended_db) = [''COMPLETED''] \<and>
   register stripe_ok ''u1'' ''e1'' ''r2'' 20 20 20 ended_db =
     (Inl (BadRequestException ''Event is not open for registration''), ended_db) \<and>
   map (\<lambda>r. (reg_eventId r, reg_userId r, reg_status r)) (eventRegistrations deadline_db) =
     [(''e1'', ''u1'', PENDING)] \<and>
   map (\<lambda>e. (ev_status e, registrationDeadline e)) (events deadline_db) =
     [(''PUBLISHED'', Some 100)] \<and>
   register stripe_ok ''u1'' ''e1'' ''r2'' 200 200 200 deadline_db =
     (Inl (BadRequestException ''Registration deadline has passed''), deadline_db)"
  by code_simp

text \<open>
  Claim C10, amended. When a registration row exists for the pair (event, subject) with a
  status other than CANCELLED (PENDING, CONFIRMED or COMPLETED), \<open>register\<close> never succeeds
  and leaves the store unchanged; when the event is found and open for registration
  (PUBLISHED, deadline not passed), the error is the conflict "Already registered for this
  event".
\<close>

theorem register_rejects_existing_registration:
  assumes uq: "distinct (map registration_pair (eventRegistrations s))"
    and rin: "r \<in> set (eventRegistrations s)"
    and pair: "reg_eventId r = eid" "reg_userId r = uid"
    and st: "reg_status r \<noteq> CANCELLED"
  shows
   "(\<exists>e. register stripe uid eid newId checkedAt now dbNow s = (Inl e, s)) \<and>
    (\<forall>ev. event_findUnique eid s = Some ev \<and> validateEventRegistration ev checkedAt = None \<longrightarrow>
       register stripe uid eid newId checkedAt now dbNow s =
         (Inl (ConflictException ''Already registered for this event''), s))"
proof -
  have "(\<lambda>x. reg_eventId x = eid \<and> reg_userId x = uid) =
        (\<lambda>x. registration_pair x = registration_pair r)"
    using pair by (auto simp: registration_pair_def)
  with find_distinct_key[OF uq rin]
  have found: "eventRegistration_findUnique_eventId_userId eid uid s = Some r"
    by (simp add: eventRegistration_findUnique_eventId_userId_def)
  have "register stripe uid eid newId checkedAt now dbNow s =
         (Inl (ConflictException ''Already registered for this event''), s)"
    if "event_findUnique eid s = Some ev" "validateEventRegistration ev checkedAt = None" for ev
    using that found st by (simp add: register_def transaction_def register_tx_def)
  with register_tx_already_registered[OF found st] show ?thesis by blast
qed

theorem register_rejects_existing_registration_witness:
  "distinct (map registration_pair (eventRegistrations completed_db)) \<and>
   map (\<lambda>r. (reg_eventId r, reg_userId r, reg_status r)) (eventRegistrations completed_db) =
     [(''e1'', ''u1'', COMPLETED)] \<and>
   map (\<lambda>e. (ev_status e, maxSeats e, currentSeats e)) (events completed_db) =
     [(''PUBLISHED'', 5, 0)] \<and>
   register stripe_ok ''u1'' ''e1'' ''r2'' 20 20 20 completed_db =
     (Inl (ConflictException ''Already registered for this event''), completed_db) \<and>
   map (\<lambda>r. (reg_eventId r, reg_userId r, reg_status r)) (eventRegistrations paid_pending_db) =
     [(''e1'', ''u1'', PENDING)] \<and>
   register stripe_ok ''u1'' ''e1'' ''r2'' 20 20 20 paid_pending_db =
     (Inl (ConflictException ''Already registered for this event''), paid_pending_db)"
proof -
  let ?r = "\<lparr>reg_id = ''r1'', reg_eventId = ''e1'', reg_userId = ''u1'', reg_status = COMPLETED,
          paymentStatus = None, stripeSessionId = None, registeredAt = 10,
          confirmedAt = Some 10, cancelledAt = None, cancelReason = None\<rparr>"
  let ?e = "\<lparr>ev_id = ''e1'', maxSeats = 5, currentSeats = 0, isFree = True, price = None,
                  registrationDeadline = None, ev_status = ''PUBLISHED''\<rparr>"
  have uq: "distinct (map registration_pair (eventRegistrations completed_db))" by code_simp
  have rin: "?r \<in> set (eventRegistrations completed_db)" by (simp add: completed_db_def)
  have pair: "reg_eventId ?r = ''e1''" "reg_userId ?r = ''u1''" by simp_all
  have st: "reg_status ?r \<noteq> CANCELLED" by simp
  have ev: "event_findUnique ''e1'' completed_db = Some ?e" by code_simp
  have ok: "validateEventRegistration ?e 20 = None" by code_simp
  have shape: "map (\<lambda>r. (reg_eventId r, reg_userId r, reg_status r)) (eventRegistrations completed_db) =
     [(''e1'', ''u1'', COMPLETED)]"
    "map (\<lambda>e. (ev_status e, maxSeats e, currentSeats e)) (events completed_db) =
     [(''PUBLISHED'', 5, 0)]"
    "map (\<lambda>r. (reg_eventId r, reg_userId r, reg_status r)) (eventRegistrations paid_pending_db) =
     [(''e1'', ''u1'', PENDING)]"
    by code_simp+
  from register_rejects_existing_registration[OF uq rin pair st, of stripe_ok "''r2''" 20 20 20] ev ok
  have a: "register stripe_ok ''u1'' ''e1'' ''r2'' 20 20 20 completed_db =
     (Inl (ConflictException ''Already registered for this event''), completed_db)"
    by blast
  let ?q = "\<lparr>reg_id = ''r1'', reg_eventId = ''e1'', reg_userId = ''u1'', reg_status = PENDING,
              paymentStatus = Some PAY_PENDING, stripeSessionId = None, registeredAt = 10,
              confirmedAt = None, cancelledAt = None, cancelReason = None\<rparr>"
  let ?p = "new_event ''e1'' 1 False (Some 5000)"
  have uq2: "distinct (map registration_pair (eventRegistrations paid_pending_db))" by code_simp
  have regs2: "eventRegistrations paid_pending_db = [?q]" by code_simp
  then have rin2: "?q \<in> set (eventRegistrations paid_pending_db)" by simp
  have pair2: "reg_eventId ?q = ''e1''" "reg_userId ?q = ''u1''" by simp_all
  have st2: "reg_status ?q \<noteq> CANCELLED" by simp
  have ev2: "event_findUnique ''e1'' paid_pending_db = Some ?p" by code_simp
  have ok2: "validateEventRegistration ?p 20 = None" by code_simp
  from register_rejects_existing_registration[OF uq2 rin2 pair2 st2, of stripe_ok "''r2''" 20 20 20]
    ev2 ok2
  have b: "register stripe_ok ''u1'' ''e1'' ''r2'' 20 20 20 paid_pending_db =
     (Inl (ConflictException ''Already registered for this event''), paid_pending_db)"
    by blast
  from uq shape a b show ?thesis by simp
qed

end
